theory Spec2Isabelle
  imports Main "HOL-Library.FSet"
begin

section \<open>Values exchanged with the backend\<close>

text \<open>
  A Python exception is represented by its message. An execution identifier is what
  \<^verbatim>\<open>execution.get("id")\<close> yields: the string of the record, or Python's
  \<^verbatim>\<open>None\<close> when the record carries no identifier.
\<close>

type_synonym exn = string

type_synonym ident = "string option"

text \<open>
  The record of a realtime event, read only through \<^verbatim>\<open>.get\<close>: a field that is
  absent reads as \<^verbatim>\<open>None\<close>. Fields have the types of the \<^verbatim>\<open>Execution\<close>
  dictionary (\<^verbatim>\<open>id: str\<close>, \<^verbatim>\<open>completed: bool\<close>, \<^verbatim>\<open>executable: str\<close>).
\<close>

record execution =
  exec_id :: "string option"
  completed :: "bool option"
  executable :: "string option"

text \<open>Python truthiness of \<^verbatim>\<open>execution.get("completed")\<close>.\<close>

definition truthy :: "bool option \<Rightarrow> bool" where
  "truthy v = (case v of None \<Rightarrow> False | Some b \<Rightarrow> b)"

section \<open>ExecutionTracker\<close>

text \<open>Two Python sets; a Python set is finite, so each is an \<open>fset\<close> and \<^verbatim>\<open>len\<close> is \<open>fcard\<close>.\<close>

record tracker =
  executed_tasks :: "ident fset"
  active_executions :: "ident fset"

definition new_tracker :: tracker where
  "new_tracker = \<lparr>executed_tasks = {||}, active_executions = {||}\<rparr>"

definition is_executed :: "tracker \<Rightarrow> ident \<Rightarrow> bool" where
  "is_executed t execution_id = (execution_id |\<in>| executed_tasks t)"

definition mark_executed :: "tracker \<Rightarrow> ident \<Rightarrow> tracker" where
  "mark_executed t execution_id =
     t\<lparr>executed_tasks := finsert execution_id (executed_tasks t)\<rparr>"

definition add_active :: "tracker \<Rightarrow> ident \<Rightarrow> tracker \<times> bool" where
  "add_active t execution_id =
     (let was_empty = (fcard (active_executions t) = 0)
      in (t\<lparr>active_executions := finsert execution_id (active_executions t)\<rparr>, was_empty))"

definition remove_active :: "tracker \<Rightarrow> ident \<Rightarrow> tracker \<times> bool" where
  "remove_active t execution_id =
     (let t' = (if execution_id |\<in>| active_executions t
                then t\<lparr>active_executions := active_executions t |-| {|execution_id|}\<rparr>
                else t)
      in (t', fcard (active_executions t') = 0))"

definition count_active :: "tracker \<Rightarrow> nat" where
  "count_active t = fcard (active_executions t)"

section \<open>AgentService.handle\_execution\<close>

text \<open>
  The handler has no suspension point, so it runs atomically on the event loop. It returns
  the tracker it leaves behind and the arguments of the task it created with
  \<^verbatim>\<open>asyncio.create_task(self.process_execution(execution, execution_id))\<close>, if any.
\<close>

definition handle_execution ::
  "execution \<Rightarrow> tracker \<Rightarrow> tracker \<times> (execution \<times> ident) option" where
  "handle_execution execution t =
     (let execution_id = exec_id execution in
      if is_executed t execution_id then (t, None)
      else
        let t' = mark_executed t execution_id in
        if truthy (completed execution) then (t', None)
        else (t', Some (execution, execution_id)))"

section \<open>AgentService: status writes and the dispatch pipeline\<close>

text \<open>The fields of the \<^verbatim>\<open>Computer\<close> record that the agent reads or writes.\<close>

record computer =
  comp_id :: string
  comp_status :: int

record agent =
  tracker :: tracker
  computer :: "computer option"

text \<open>What the agent prints, one constructor for each \<^verbatim>\<open>print\<close> of the source.\<close>

datatype log_line =
    StatusUpdated int
  | StatusUpdateFailed exn
  | ExecutingTask ident nat
  | TaskCompleted ident nat
  | Connecting
  | SubscriptionActive
  | RunError exn
  | Unsubscribed
  | UnsubscribeError exn

text \<open>
  The calls the agent issues to its collaborators, in the order it issues them:
  \<^verbatim>\<open>update_computer(id, {"status": s})\<close>, \<^verbatim>\<open>update_execution(id, {"logs": l})\<close>,
  \<^verbatim>\<open>update_execution(id, {"logs": l, "completed": True})\<close>,
  \<^verbatim>\<open>execute_code(code, id)\<close>, \<^verbatim>\<open>subscribe_to_executions(computer_id, ...)\<close>,
  the unsubscribe handle, and \<^verbatim>\<open>print\<close>.
\<close>

datatype action =
    UpdateComputer string int
  | UpdateExecutionLogs ident string
  | UpdateExecutionResult ident string
  | ExecuteCode "string option" ident
  | Subscribe string
  | Unsubscribe
  | Print log_line

text \<open>The text of the "started" marker, a Python string given by its UTF-8 bytes.\<close>

definition started_marker :: string where
  "started_marker =
     [CHR 0xF0, CHR 0x9F, CHR 0x94, CHR 0x84] @ '' Execution started...'' @ [CHR 0x0A]"

text \<open>The message of the \<^verbatim>\<open>TypeError\<close> of \<^verbatim>\<open>self.computer["id"]\<close> when there is no record.\<close>

definition none_not_subscriptable :: exn where
  "none_not_subscriptable = [CHR 0x27] @ ''NoneType'' @ [CHR 0x27] @ '' object is not subscriptable''"

text \<open>
  \<^verbatim>\<open>update_computer_status\<close> has one suspension point, the backend write. The part before
  it issues the write and suspends (\<open>True\<close>), or fails on a missing record inside the
  \<^verbatim>\<open>try\<close> and logs (\<open>False\<close>). The part after it takes the backend's answer: the updated
  record, or the exception, which the \<^verbatim>\<open>except Exception\<close> clause turns into a log line.
\<close>

definition update_computer_status_call :: "int \<Rightarrow> agent \<Rightarrow> action list \<times> bool" where
  "update_computer_status_call st a =
     (case computer a of
        None \<Rightarrow> ([Print (StatusUpdateFailed none_not_subscriptable)], False)
      | Some c \<Rightarrow> ([UpdateComputer (comp_id c) st], True))"

definition update_computer_status_reply ::
  "exn + computer \<Rightarrow> int \<Rightarrow> agent \<Rightarrow> agent \<times> action list" where
  "update_computer_status_reply r st a =
     (case r of
        Inr c' \<Rightarrow> (a\<lparr>computer := Some c'\<rparr>, [Print (StatusUpdated st)])
      | Inl e \<Rightarrow> (a, [Print (StatusUpdateFailed e)]))"

text \<open>
  \<^verbatim>\<open>process_execution\<close> is a coroutine: between two suspension points it runs
  atomically, and at each \<^verbatim>\<open>await\<close> other tasks and event handlers may run. Its program
  counter names the \<^verbatim>\<open>await\<close> it is suspended at; \<open>Failed e\<close> is the coroutine left by
  the exception \<open>e\<close>.
\<close>

datatype pc =
    Scheduled
  | AwaitStatusRunning
  | AwaitStartedWrite
  | AwaitRunner
  | AwaitResultWrite
  | AwaitStatusIdle
  | Finished
  | Failed exn

text \<open>What resumes a suspended coroutine: the answer of the call it awaits, or its exception.\<close>

datatype reply =
    Go
  | ComputerReply "exn + computer"
  | ExecutionReply "exn + unit"
  | RunnerReply "exn + string"

text \<open>Lines 240 to 245: the log line and the "started" write.\<close>

definition started_write :: "ident \<Rightarrow> agent \<Rightarrow> action list" where
  "started_write execution_id a =
     [Print (ExecutingTask execution_id (count_active (tracker a))),
      UpdateExecutionLogs execution_id started_marker]"

text \<open>Line 263.\<close>

definition task_completed :: "ident \<Rightarrow> agent \<Rightarrow> action list" where
  "task_completed execution_id a =
     [Print (TaskCompleted execution_id (count_active (tracker a)))]"

text \<open>
  One atomic piece of \<^verbatim>\<open>process_execution\<close>: from the suspension point \<open>pc\<close>, resumed
  with a reply, to the next suspension point. \<open>None\<close> when the reply is not one the
  coroutine waits for at \<open>pc\<close>.
\<close>

fun process_execution ::
  "pc \<Rightarrow> reply \<Rightarrow> execution \<Rightarrow> ident \<Rightarrow> agent \<Rightarrow> (pc \<times> agent \<times> action list) option" where
  "process_execution Scheduled Go execution execution_id a =
     (let (t', is_first_task) = add_active (tracker a) execution_id;
          a' = a\<lparr>tracker := t'\<rparr>
      in if is_first_task then
           (case update_computer_status_call 1 a' of
              (acts, True) \<Rightarrow> Some (AwaitStatusRunning, a', acts)
            | (acts, False) \<Rightarrow> Some (AwaitStartedWrite, a', acts @ started_write execution_id a'))
         else Some (AwaitStartedWrite, a', started_write execution_id a'))"
| "process_execution AwaitStatusRunning (ComputerReply r) execution execution_id a =
     (let (a', acts) = update_computer_status_reply r 1 a
      in Some (AwaitStartedWrite, a', acts @ started_write execution_id a'))"
| "process_execution AwaitStartedWrite (ExecutionReply r) execution execution_id a =
     (case r of
        Inl e \<Rightarrow> Some (Failed e, a, [])
      | Inr _ \<Rightarrow> Some (AwaitRunner, a, [ExecuteCode (executable execution) execution_id]))"
| "process_execution AwaitRunner (RunnerReply r) execution execution_id a =
     (case r of
        Inl e \<Rightarrow> Some (Failed e, a, [])
      | Inr logs \<Rightarrow> Some (AwaitResultWrite, a, [UpdateExecutionResult execution_id logs]))"
| "process_execution AwaitResultWrite (ExecutionReply r) execution execution_id a =
     (case r of
        Inl e \<Rightarrow> Some (Failed e, a, [])
      | Inr _ \<Rightarrow>
          (let (t', is_last_task) = remove_active (tracker a) execution_id;
               a' = a\<lparr>tracker := t'\<rparr>
           in if is_last_task then
                (case update_computer_status_call 2 a' of
                   (acts, True) \<Rightarrow> Some (AwaitStatusIdle, a', acts)
                 | (acts, False) \<Rightarrow> Some (Finished, a', acts @ task_completed execution_id a'))
              else Some (Finished, a', task_completed execution_id a')))"
| "process_execution AwaitStatusIdle (ComputerReply r) execution execution_id a =
     (let (a', acts) = update_computer_status_reply r 2 a
      in Some (Finished, a', acts @ task_completed execution_id a'))"
| "process_execution _ _ _ _ _ = None"

section \<open>The event loop: handlers and tasks interleaved\<close>

record task =
  task_exec :: execution
  task_id :: ident
  task_pc :: pc

text \<open>
  The agent with the tasks it has created (never removed from the list, so the list is the
  history of dispatches) and the calls issued so far.
\<close>

record sys =
  agent_of :: agent
  tasks :: "task list"
  trace :: "action list"

text \<open>A step of the loop: an event is delivered to the handler, or task \<open>k\<close> is resumed.\<close>

datatype step = Deliver execution | Resume nat reply

definition deliver :: "execution \<Rightarrow> sys \<Rightarrow> sys" where
  "deliver e s =
     (case handle_execution e (tracker (agent_of s)) of
        (t', None) \<Rightarrow> s\<lparr>agent_of := (agent_of s)\<lparr>tracker := t'\<rparr>\<rparr>
      | (t', Some (execution, execution_id)) \<Rightarrow>
          s\<lparr>agent_of := (agent_of s)\<lparr>tracker := t'\<rparr>,
            tasks := tasks s @
              [\<lparr>task_exec = execution, task_id = execution_id, task_pc = Scheduled\<rparr>]\<rparr>)"

definition resume :: "nat \<Rightarrow> reply \<Rightarrow> sys \<Rightarrow> sys" where
  "resume k r s =
     (if k < length (tasks s) then
        (let tk = tasks s ! k in
         case process_execution (task_pc tk) r (task_exec tk) (task_id tk) (agent_of s) of
           None \<Rightarrow> s
         | Some (p, a', acts) \<Rightarrow>
             s\<lparr>agent_of := a', tasks := (tasks s)[k := tk\<lparr>task_pc := p\<rparr>],
               trace := trace s @ acts\<rparr>)
      else s)"

fun sys_step :: "step \<Rightarrow> sys \<Rightarrow> sys" where
  "sys_step (Deliver e) s = deliver e s"
| "sys_step (Resume k r) s = resume k r s"

fun run_steps :: "step list \<Rightarrow> sys \<Rightarrow> sys" where
  "run_steps [] s = s"
| "run_steps (st # sts) s = run_steps sts (sys_step st s)"

text \<open>The agent after \<^verbatim>\<open>initialize\<close>: a fresh tracker, the fetched record, no task.\<close>

definition initial :: "computer \<Rightarrow> sys" where
  "initial c = \<lparr>agent_of = \<lparr>tracker = new_tracker, computer = Some c\<rparr>, tasks = [], trace = []\<rparr>"

text \<open>How many tasks were ever created for an identifier.\<close>

definition dispatches :: "ident \<Rightarrow> sys \<Rightarrow> nat" where
  "dispatches i s = length (filter (\<lambda>tk. task_id tk = i) (tasks s))"

text \<open>The calls of a trace, its log lines left out.\<close>

fun is_print :: "action \<Rightarrow> bool" where
  "is_print (Print _) = True"
| "is_print _ = False"

definition calls :: "action list \<Rightarrow> action list" where
  "calls acts = filter (\<lambda>x. \<not> is_print x) acts"

text \<open>
  What every reachable state of the loop satisfies: active identifiers are marked, every
  task's identifier is marked, and no two tasks share an identifier.
\<close>

definition ledger_inv :: "sys \<Rightarrow> bool" where
  "ledger_inv s =
     (active_executions (tracker (agent_of s)) |\<subseteq>| executed_tasks (tracker (agent_of s))
      \<and> set (map task_id (tasks s)) \<subseteq> fset (executed_tasks (tracker (agent_of s)))
      \<and> distinct (map task_id (tasks s)))"

section \<open>CodeExecutor.\_run\_in\_process\<close>

text \<open>
  Python's \<^verbatim>\<open>str\<close> of an integer, of an optional timeout and of an identifier, as the
  f-strings of the source format them.
\<close>

definition digit :: "nat \<Rightarrow> char" where
  "digit d = ''0123456789'' ! d"

fun str_nat :: "nat \<Rightarrow> string" where
  "str_nat n =
     (if n < 10 then [digit n]
      else str_nat (n div 10) @ [digit (n mod 10)])"

declare str_nat.simps [simp del]

definition str_int :: "int \<Rightarrow> string" where
  "str_int k = (if k < 0 then ''-'' @ str_nat (nat (- k)) else str_nat (nat k))"

definition str_timeout :: "int option \<Rightarrow> string" where
  "str_timeout timeout = (case timeout of None \<Rightarrow> ''None'' | Some k \<Rightarrow> str_int k)"

definition str_ident :: "ident \<Rightarrow> string" where
  "str_ident execution_id = (case execution_id of None \<Rightarrow> ''None'' | Some s \<Rightarrow> s)"

definition newline :: string where
  "newline = [CHR 0x0A]"

text \<open>
  \<^verbatim>\<open>os.path.join(temp_dir, f"exec_{execution_id}.py")\<close> on a POSIX host; the second
  component never starts with a slash.
\<close>

definition path_join :: "string \<Rightarrow> string \<Rightarrow> string" where
  "path_join a b = (if a = [] \<or> last a = CHR ''/'' then a @ b else a @ ''/'' @ b)"

definition temp_filename :: "string \<Rightarrow> ident \<Rightarrow> string" where
  "temp_filename temp_dir execution_id =
     path_join temp_dir (''exec_'' @ str_ident execution_id @ ''.py'')"

text \<open>
  What the runner does to the host, in order: the announcement it prints, the child
  process it spawns, \<^verbatim>\<open>process.kill()\<close>, \<^verbatim>\<open>os.unlink\<close>, and the log line of a failed
  deletion.
\<close>

datatype host_action =
    Announce string
  | Spawn string
  | Kill
  | Unlink string
  | LogDeleteError exn

text \<open>
  How \<^verbatim>\<open>process.communicate(timeout=timeout)\<close> ends: the child exited, with each captured
  stream either decoded as UTF-8 or failing to decode, and its return code; or the timeout
  expired, with whatever output was captured until then; or another exception.
\<close>

datatype completion =
    Exited "exn + string" "exn + string" int
  | TimedOut string string
  | CommunicateError exn

text \<open>
  The host's answers to one invocation: the temporary directory, whether \<^verbatim>\<open>open\<close>,
  \<^verbatim>\<open>write\<close> and \<^verbatim>\<open>Popen\<close> succeed, what the child does to the files on disk while it
  runs, how \<^verbatim>\<open>communicate\<close> ends, and whether \<^verbatim>\<open>os.unlink\<close> succeeds.
\<close>

record host =
  temp_dir :: string
  open_result :: "exn + unit"
  write_result :: "exn + unit"
  popen_result :: "exn + unit"
  child_files :: "string fset \<Rightarrow> string fset"
  completion :: completion
  unlink_result :: "exn + unit"

text \<open>The exceptions the two \<^verbatim>\<open>except\<close> clauses tell apart.\<close>

datatype raised = TimeoutExpired | OtherException exn

text \<open>\<^verbatim>\<open>temp_file.write(None)\<close>, when the record has no \<^verbatim>\<open>executable\<close>.\<close>

definition write_none_error :: exn where
  "write_none_error = ''write() argument must be str, not None''"

text \<open>Lines 95 to 104: the result text of a run that completed.\<close>

definition compose_output :: "string \<Rightarrow> string \<Rightarrow> int \<Rightarrow> string" where
  "compose_output stdout_str stderr_str returncode =
     (let output = stdout_str;
          output = (if stderr_str \<noteq> []
                    then (if output \<noteq> [] then output @ newline @ newline else output)
                         @ ''Errors:'' @ newline @ stderr_str
                    else output);
          output = (if returncode \<noteq> 0
                    then output @ newline @ newline @ ''Process exited with code ''
                         @ str_int returncode
                    else output)
      in output)"

text \<open>
  The \<^verbatim>\<open>try\<close> block, lines 81 to 104, over the set of files on disk: the files it leaves,
  what it did, and its outcome, an exception or the text it returns. Opening the file for
  writing creates it.
\<close>

definition try_body ::
  "host \<Rightarrow> string option \<Rightarrow> string \<Rightarrow> string fset
     \<Rightarrow> string fset \<times> host_action list \<times> (raised + string)" where
  "try_body h code path files =
     (case open_result h of
        Inl e \<Rightarrow> (files, [], Inl (OtherException e))
      | Inr _ \<Rightarrow>
          (let files1 = finsert path files in
           case (case code of None \<Rightarrow> Inl write_none_error | Some _ \<Rightarrow> write_result h) of
             Inl e \<Rightarrow> (files1, [], Inl (OtherException e))
           | Inr _ \<Rightarrow>
               (case popen_result h of
                  Inl e \<Rightarrow> (files1, [], Inl (OtherException e))
                | Inr _ \<Rightarrow>
                    (let files2 = child_files h files1 in
                     case completion h of
                       TimedOut partial_out partial_err \<Rightarrow>
                         (files2, [Spawn path], Inl TimeoutExpired)
                     | CommunicateError e \<Rightarrow>
                         (files2, [Spawn path], Inl (OtherException e))
                     | Exited out err returncode \<Rightarrow>
                         (case out of
                            Inl e \<Rightarrow> (files2, [Spawn path], Inl (OtherException e))
                          | Inr stdout_str \<Rightarrow>
                              (case err of
                                 Inl e \<Rightarrow>
                                   (files2, [Spawn path], Inl (OtherException e))
                               | Inr stderr_str \<Rightarrow>
                                   (files2, [Spawn path],
                                    Inr (compose_output stdout_str stderr_str returncode))))))))"

text \<open>The \<^verbatim>\<open>except\<close> clauses, lines 106 to 111.\<close>

definition handlers :: "int option \<Rightarrow> raised + string \<Rightarrow> string \<times> host_action list" where
  "handlers timeout r =
     (case r of
        Inr output \<Rightarrow> (output, [])
      | Inl TimeoutExpired \<Rightarrow>
          (''Execution timed out after '' @ str_timeout timeout @ '' seconds.'', [Kill])
      | Inl (OtherException e) \<Rightarrow> (''Error executing code: '' @ e, []))"

text \<open>The \<^verbatim>\<open>finally\<close> clause, lines 113 to 118.\<close>

definition cleanup :: "host \<Rightarrow> string \<Rightarrow> string fset \<Rightarrow> string fset \<times> host_action list" where
  "cleanup h path files =
     (if path |\<in>| files then
        (case unlink_result h of
           Inr _ \<Rightarrow> (files |-| {|path|}, [Unlink path])
         | Inl e \<Rightarrow> (files, [Unlink path, LogDeleteError e]))
      else (files, []))"

text \<open>The whole call: the text returned, the files left on disk, and what was done.\<close>

definition run_in_process ::
  "host \<Rightarrow> string option \<Rightarrow> ident \<Rightarrow> int option \<Rightarrow> string fset
     \<Rightarrow> string \<times> string fset \<times> host_action list" where
  "run_in_process h code execution_id timeout files =
     (let path = temp_filename (temp_dir h) execution_id;
          (files1, acts1, r) = try_body h code path files;
          (result, acts2) = handlers timeout r;
          (files2, acts3) = cleanup h path files1
      in (result, files2, [Announce path] @ acts1 @ acts2 @ acts3))"

section \<open>AgentService.run\<close>

text \<open>
  An exception is an \<^verbatim>\<open>Exception\<close>, which \<^verbatim>\<open>except Exception\<close> catches, or another
  \<^verbatim>\<open>BaseException\<close> (a cancellation, a keyboard interrupt), which it does not.
\<close>

datatype py_raise = PyException exn | PyBaseException exn

text \<open>
  The loop \<^verbatim>\<open>while True: await asyncio.sleep(3600)\<close> ends only when a sleep raises. Given
  the outcomes of the sleeps observed so far, it has ended with an exception, or it is
  still running (\<open>None\<close>).
\<close>

datatype sleep_result = Slept | SleepRaised py_raise

fun keep_running :: "sleep_result list \<Rightarrow> py_raise option" where
  "keep_running [] = None"
| "keep_running (Slept # later) = keep_running later"
| "keep_running (SleepRaised x # later) = Some x"

text \<open>
  The collaborators' answers during one run: to the subscription, to each sleep, to the
  Offline write and to the unsubscribe call.
\<close>

record lifecycle =
  subscribe_result :: "py_raise + unit"
  sleeps :: "sleep_result list"
  offline_result :: "py_raise + computer"
  unsubscribe_result :: "py_raise + unit"

text \<open>
  The \<^verbatim>\<open>try\<close> block, lines 267 to 277: what was done, whether the local variable
  \<^verbatim>\<open>unsubscribe\<close> got bound, and the exception that ended the block.
\<close>

definition run_body :: "lifecycle \<Rightarrow> agent \<Rightarrow> (action list \<times> bool \<times> py_raise) option" where
  "run_body env a =
     (case computer a of
        None \<Rightarrow> Some ([Print Connecting], False, PyException none_not_subscriptable)
      | Some c \<Rightarrow>
          (case subscribe_result env of
             Inl x \<Rightarrow> Some ([Print Connecting, Subscribe (comp_id c)], False, x)
           | Inr _ \<Rightarrow>
               (case keep_running (sleeps env) of
                  None \<Rightarrow> None
                | Some x \<Rightarrow>
                    Some ([Print Connecting, Subscribe (comp_id c), Print SubscriptionActive],
                          True, x))))"

text \<open>The \<^verbatim>\<open>except Exception\<close> clause, lines 279 and 280, and the exception still pending.\<close>

definition run_except :: "py_raise \<Rightarrow> action list \<times> py_raise option" where
  "run_except x =
     (case x of
        PyException e \<Rightarrow> ([Print (RunError e)], None)
      | PyBaseException e \<Rightarrow> ([], Some x))"

text \<open>Lines 289 to 294, the guarded unsubscribe call.\<close>

definition run_unsubscribe ::
  "lifecycle \<Rightarrow> bool \<Rightarrow> py_raise option \<Rightarrow> action list \<times> py_raise option" where
  "run_unsubscribe env bound pending =
     (if bound then
        (case unsubscribe_result env of
           Inr _ \<Rightarrow> ([Unsubscribe, Print Unsubscribed], pending)
         | Inl (PyException e) \<Rightarrow> ([Unsubscribe, Print (UnsubscribeError e)], pending)
         | Inl (PyBaseException e) \<Rightarrow> ([Unsubscribe], Some (PyBaseException e)))
      else ([], pending))"

text \<open>
  The \<^verbatim>\<open>finally\<close> clause, lines 282 to 294. The Offline write at lines 284 to 287 is not
  inside a \<^verbatim>\<open>try\<close>: its exception leaves the clause at once.
\<close>

definition run_finally ::
  "lifecycle \<Rightarrow> agent \<Rightarrow> bool \<Rightarrow> py_raise option \<Rightarrow> action list \<times> py_raise option" where
  "run_finally env a bound pending =
     (case computer a of
        None \<Rightarrow> run_unsubscribe env bound pending
      | Some c \<Rightarrow>
          (case offline_result env of
             Inl x \<Rightarrow> ([UpdateComputer (comp_id c) 0], Some x)
           | Inr _ \<Rightarrow>
               (let (acts, out) = run_unsubscribe env bound pending
                in (UpdateComputer (comp_id c) 0 # acts, out))))"

text \<open>
  The whole coroutine: \<open>None\<close> while the loop runs, else the trace and the exception that
  leaves \<^verbatim>\<open>run\<close>, if any.
\<close>

definition run :: "lifecycle \<Rightarrow> agent \<Rightarrow> (action list \<times> py_raise option) option" where
  "run env a =
     (case run_body env a of
        None \<Rightarrow> None
      | Some (acts, bound, x) \<Rightarrow>
          (let (acts1, pending) = run_except x;
               (acts2, out) = run_finally env a bound pending
           in Some (acts @ acts1 @ acts2, out)))"

section \<open>Concrete inputs\<close>

definition example_computer :: computer where
  "example_computer = \<lparr>comp_id = ''pc1'', comp_status = 2\<rparr>"

definition example_agent :: agent where
  "example_agent = \<lparr>tracker = new_tracker, computer = Some example_computer\<rparr>"

definition example_execution :: execution where
  "example_execution =
     \<lparr>exec_id = Some ''e1'', completed = Some False, executable = Some ''print(1)''\<rparr>"

definition completed_execution :: execution where
  "completed_execution =
     \<lparr>exec_id = Some ''e1'', completed = Some True, executable = Some ''print(1)''\<rparr>"




text \<open>
  One execution is delivered and starts; the Running status write succeeds; the "started"
  write raises.
\<close>

definition started_write_fails :: sys where
  "started_write_fails =
     run_steps
       [Deliver example_execution,
        Resume 0 Go,
        Resume 0 (ComputerReply (Inr (example_computer\<lparr>comp_status := 1\<rparr>))),
        Resume 0 (ExecutionReply (Inl ''backend down''))]
       (initial example_computer)"

text \<open>
  The subscription is established, the second sleep raises, and the backend then refuses
  the Offline write.
\<close>

definition offline_write_fails :: lifecycle where
  "offline_write_fails =
     \<lparr>subscribe_result = Inr (),
      sleeps = [Slept, SleepRaised (PyException ''connection lost'')],
      offline_result = Inl (PyException ''backend down''),
      unsubscribe_result = Inr ()\<rparr>"

text \<open>A child that prints \<open>partial\<close>, writes \<open>boom\<close> to stderr and exits with code 1.\<close>

definition example_host :: host where
  "example_host =
     \<lparr>temp_dir = ''/tmp'', open_result = Inr (), write_result = Inr (), popen_result = Inr (),
      child_files = (\<lambda>files. files),
      completion = Exited (Inr ''partial'') (Inr ''boom'') 1,
      unlink_result = Inr ()\<rparr>"

text \<open>The same host when the timeout expires first, and when the deletion fails.\<close>

definition timed_out_host :: host where
  "timed_out_host = example_host\<lparr>completion := TimedOut ''partial'' ''boom'' \<rparr>"

definition undeletable_host :: host where
  "undeletable_host = example_host\<lparr>unlink_result := Inl ''busy'' \<rparr>"

section \<open>Facts about the tracker and the event loop\<close>

lemmas eval_simps =
  deliver_def resume_def handle_execution_def is_executed_def mark_executed_def
  add_active_def remove_active_def count_active_def update_computer_status_call_def
  update_computer_status_reply_def started_write_def task_completed_def truthy_def
  initial_def new_tracker_def calls_def Let_def fcard_finsert_if

lemma process_execution_tracker:
  assumes "process_execution p r e i a = Some (p', a', acts)"
  shows "executed_tasks (tracker a') = executed_tasks (tracker a)
         \<and> active_executions (tracker a') |\<subseteq>| finsert i (active_executions (tracker a))"
  using assms
  by (cases "(p, r, e, i, a)" rule: process_execution.cases)
     (auto simp: add_active_def remove_active_def update_computer_status_call_def
        update_computer_status_reply_def Let_def
        split: if_splits sum.splits option.splits prod.splits)

lemma handle_execution_tracker:
  "executed_tasks (fst (handle_execution e t)) = finsert (exec_id e) (executed_tasks t)
   \<and> active_executions (fst (handle_execution e t)) = active_executions t"
  by (auto simp: handle_execution_def is_executed_def mark_executed_def Let_def)

lemma handle_execution_task:
  "snd (handle_execution e t) = Some (x, i) \<Longrightarrow>
     x = e \<and> i = exec_id e \<and> exec_id e |\<notin>| executed_tasks t \<and> \<not> truthy (completed e)"
  by (auto simp: handle_execution_def is_executed_def Let_def split: if_splits)

lemma handle_execution_marked:
  "exec_id e |\<in>| executed_tasks t \<Longrightarrow> handle_execution e t = (t, None)"
  by (simp add: handle_execution_def is_executed_def)

lemma deliver_inv: "ledger_inv s \<Longrightarrow> ledger_inv (deliver e s)"
  using handle_execution_tracker [of e "tracker (agent_of s)"]
    handle_execution_task [of e "tracker (agent_of s)"]
  by (cases "handle_execution e (tracker (agent_of s))")
     (auto simp: ledger_inv_def deliver_def split: option.splits)

lemma resume_task_ids: "map task_id (tasks (resume k r s)) = map task_id (tasks s)"
  by (auto simp: resume_def Let_def map_update list_update_same_conv split: option.splits)

lemma resume_tracker:
  "executed_tasks (tracker (agent_of (resume k r s))) = executed_tasks (tracker (agent_of s))
   \<and> (active_executions (tracker (agent_of (resume k r s)))
        = active_executions (tracker (agent_of s))
      \<or> (k < length (tasks s)
          \<and> active_executions (tracker (agent_of (resume k r s)))
              |\<subseteq>| finsert (task_id (tasks s ! k)) (active_executions (tracker (agent_of s)))))"
  using process_execution_tracker
  by (auto simp: resume_def Let_def split: option.splits)

lemma resume_inv: "ledger_inv s \<Longrightarrow> ledger_inv (resume k r s)"
  using resume_tracker [of k r s] resume_task_ids [of k r s]
  unfolding ledger_inv_def
  by (auto dest!: nth_mem)

lemma sys_step_inv: "ledger_inv s \<Longrightarrow> ledger_inv (sys_step st s)"
  by (cases st) (simp_all add: deliver_inv resume_inv)

lemma run_steps_inv: "ledger_inv s \<Longrightarrow> ledger_inv (run_steps steps s)"
  by (induction steps arbitrary: s) (simp_all add: sys_step_inv)

lemma initial_inv: "ledger_inv (initial c)"
  by (simp add: ledger_inv_def initial_def new_tracker_def)

lemma sys_step_executed:
  "executed_tasks (tracker (agent_of s)) |\<subseteq>| executed_tasks (tracker (agent_of (sys_step st s)))"
proof (cases st)
  case (Deliver e)
  then show ?thesis
    using handle_execution_tracker [of e "tracker (agent_of s)"]
    by (cases "handle_execution e (tracker (agent_of s))")
       (auto simp: deliver_def split: option.splits)
next
  case (Resume k r)
  then show ?thesis using resume_tracker [of k r s] by simp
qed

lemma run_steps_executed:
  "executed_tasks (tracker (agent_of s))
     |\<subseteq>| executed_tasks (tracker (agent_of (run_steps steps s)))"
proof (induction steps arbitrary: s)
  case Nil
  show ?case by simp
next
  case (Cons st sts)
  have "executed_tasks (tracker (agent_of s))
          |\<subseteq>| executed_tasks (tracker (agent_of (sys_step st s)))"
    by (rule sys_step_executed)
  also have "\<dots> |\<subseteq>| executed_tasks (tracker (agent_of (run_steps sts (sys_step st s))))"
    by (rule Cons.IH)
  finally show ?case by simp
qed

lemma distinct_count: "distinct (map f xs) \<Longrightarrow> length (filter (\<lambda>x. f x = i) xs) \<le> 1"
  by (induction xs) (auto simp: filter_empty_conv image_iff)

lemma deliver_marks: "exec_id e |\<in>| executed_tasks (tracker (agent_of (deliver e s)))"
  using handle_execution_tracker [of e "tracker (agent_of s)"]
  by (cases "handle_execution e (tracker (agent_of s))")
     (auto simp: deliver_def split: option.splits)

lemma deliver_marked_noop:
  "exec_id e |\<in>| executed_tasks (tracker (agent_of s)) \<Longrightarrow> deliver e s = s"
  by (simp add: deliver_def handle_execution_marked)

lemma run_steps_append: "run_steps (xs @ ys) s = run_steps ys (run_steps xs s)"
  by (induction xs arbitrary: s) simp_all

text \<open>A coroutine that has failed or finished is never resumed again.\<close>

lemma failed_is_terminal: "process_execution (Failed x) r e i a = None"
  by simp

lemma finished_is_terminal: "process_execution Finished r e i a = None"
  by simp

section \<open>Facts about the runner\<close>

lemma run_in_process_completed:
  assumes "open_result h = Inr ()" and "write_result h = Inr ()" and "popen_result h = Inr ()"
    and "completion h = Exited (Inr out) (Inr err) rc"
  shows "fst (run_in_process h (Some code) i timeout files) = compose_output out err rc"
  using assms
  by (simp add: run_in_process_def try_body_def handlers_def Let_def split: prod.splits)

lemma try_body_ignores_unlink:
  "try_body (h\<lparr>unlink_result := u\<rparr>) code path files = try_body h code path files"
  by (simp add: try_body_def Let_def split: sum.splits option.splits completion.splits)

lemma run_in_process_parts:
  assumes "try_body h code (temp_filename (temp_dir h) i) files = (files1, acts1, r)"
  shows "run_in_process h code i timeout files =
           (fst (handlers timeout r),
            fst (cleanup h (temp_filename (temp_dir h) i) files1),
            [Announce (temp_filename (temp_dir h) i)] @ acts1 @ snd (handlers timeout r)
              @ snd (cleanup h (temp_filename (temp_dir h) i) files1))"
  using assms by (simp add: run_in_process_def Let_def split: prod.splits)

lemma try_body_no_unlink:
  "try_body h code path files = (files1, acts1, r) \<Longrightarrow> Unlink p \<notin> set acts1"
  by (auto simp: try_body_def Let_def split: sum.splits option.splits completion.splits)

lemma handlers_no_unlink: "Unlink p \<notin> set (snd (handlers timeout r))"
  by (auto simp: handlers_def split: sum.splits raised.splits)

lemma cleanup_unlink:
  "(Unlink path \<in> set (snd (cleanup h path files1))) = (path |\<in>| files1)"
  by (auto simp: cleanup_def split: sum.splits)

lemma cleanup_removes:
  "unlink_result h = Inr () \<Longrightarrow> path |\<notin>| fst (cleanup h path files1)"
  by (auto simp: cleanup_def)

lemma cleanup_logs:
  "unlink_result h = Inl e \<Longrightarrow> path |\<in>| files1 \<Longrightarrow>
     LogDeleteError e \<in> set (snd (cleanup h path files1)) \<and> path |\<in>| fst (cleanup h path files1)"
  by (auto simp: cleanup_def)

section \<open>Facts about the shutdown\<close>

text \<open>
  Once the subscription is established and the loop has ended: when the Offline write
  returns, the unsubscribe call follows it, whatever that call answers; when the Offline
  write raises, its exception leaves \<^verbatim>\<open>run\<close> and nothing follows.
\<close>

lemma run_shutdown_when_offline_write_returns:
  assumes "computer a = Some c" and "subscribe_result env = Inr ()"
    and "keep_running (sleeps env) = Some x" and "offline_result env = Inr c'"
  shows "\<exists>acts out. run env a = Some (acts, out)
           \<and> calls acts = [Subscribe (comp_id c), UpdateComputer (comp_id c) 0, Unsubscribe]"
  using assms
  by (auto simp: run_def run_body_def run_except_def run_finally_def run_unsubscribe_def
      calls_def split: py_raise.splits sum.splits)

lemma run_offline_write_raises:
  assumes "computer a = Some c" and "subscribe_result env = Inr ()"
    and "keep_running (sleeps env) = Some x" and "offline_result env = Inl y"
  shows "\<exists>acts. run env a = Some (acts, Some y)
           \<and> calls acts = [Subscribe (comp_id c), UpdateComputer (comp_id c) 0]"
  using assms
  by (auto simp: run_def run_body_def run_except_def run_finally_def run_unsubscribe_def
      calls_def split: py_raise.splits sum.splits)

section \<open>Claims\<close>

text \<open>
  C1 (shutdown of \<^verbatim>\<open>run\<close>). The claim: when the loop ends, the Offline write and the
  unsubscribe call are each attempted once, and a failure of the Offline write does not
  keep the unsubscribe call from being attempted. The code evaluated at a run where the
  subscription is established, a sleep raises and the Offline write then raises: the
  Offline write is attempted once, its exception leaves \<^verbatim>\<open>run\<close>, and the unsubscribe
  call is never attempted.
\<close>

theorem offline_failure_skips_unsubscribe:
  "run offline_write_fails example_agent =
     Some ([Print Connecting, Subscribe ''pc1'', Print SubscriptionActive,
            Print (RunError ''connection lost''), UpdateComputer ''pc1'' 0],
           Some (PyException ''backend down''))
   \<and> Unsubscribe \<notin> set (fst (the (run offline_write_fails example_agent)))"
  by (simp add: run_def run_body_def run_except_def run_finally_def run_unsubscribe_def
      offline_write_fails_def example_agent_def example_computer_def)

text \<open>
  C2, as the claim states it, asks that \<open>remove_active\<close> answers true only when the
  identifier was present and the set was non-empty before the call. The code answers by the
  size of the set after the removal alone, so a call on an empty set answers true.
\<close>

theorem remove_active_empty_counterexample:
  "snd (remove_active new_tracker (Some ''e1'')) = True
   \<and> active_executions new_tracker = {||}
   \<and> \<not> (snd (remove_active new_tracker (Some ''e1''))
         = (Some ''e1'' |\<in>| active_executions new_tracker
            \<and> active_executions new_tracker |-| {|Some ''e1''|} = {||}
            \<and> active_executions new_tracker \<noteq> {||}))"
  by (simp add: remove_active_def new_tracker_def)

text \<open>
  C2, amended: \<open>remove_active\<close> removes the identifier if present and changes nothing
  else, and it answers true exactly when the active set is empty immediately after the
  call, that is exactly when the active set before the call held no identifier other than
  the given one (the empty set included).
\<close>

theorem remove_active_last_out:
  "active_executions (fst (remove_active t i)) = active_executions t |-| {|i|}
   \<and> executed_tasks (fst (remove_active t i)) = executed_tasks t
   \<and> snd (remove_active t i) = (active_executions (fst (remove_active t i)) = {||})
   \<and> snd (remove_active t i) = (active_executions t |\<subseteq>| {|i|})"
  by (auto simp: remove_active_def Let_def)

text \<open>
  C3, as the claim states it, asks that an exception of any backend write, the "started"
  write included, leaves the pipeline running. In the code only the status writes are
  inside a \<^verbatim>\<open>try\<close>. When the "started" write raises, the coroutine ends with that
  exception: the runner is not called, no result write is issued, and the identifier stays
  in the active set.
\<close>

theorem started_write_failure_counterexample:
  "map task_pc (tasks started_write_fails) = [Failed ''backend down'']
   \<and> trace started_write_fails =
       [UpdateComputer ''pc1'' 1,
        Print (StatusUpdated 1),
        Print (ExecutingTask (Some ''e1'') 1),
        UpdateExecutionLogs (Some ''e1'') started_marker]
   \<and> active_executions (tracker (agent_of started_write_fails)) = {|Some ''e1''|}
   \<and> process_execution (Failed ''backend down'') (ExecutionReply (Inr ()))
        example_execution (Some ''e1'') (agent_of started_write_fails) = None"
  by (simp add: started_write_fails_def example_execution_def example_computer_def eval_simps)

text \<open>
  C3, amended: an exception raised by a status write is caught and logged and does not
  abort the pipeline. When the Running status write raises, the failure is logged and the
  "started" write is issued next; when the Idle status write raises, the failure is logged
  and the task finishes. Once the "started" write has returned the runner is called, once
  the runner has returned the result write with its logs is issued, and once the result
  write has returned the identifier is removed from the active set. So for one execution
  run from the initial state, whatever the two status writes answer, the calls issued are
  the Running status write, the "started" write, the runner, the result write and the Idle
  status write, the task finishes and the active set is empty.
\<close>

theorem status_write_failure_does_not_abort:
  "process_execution AwaitStatusRunning (ComputerReply (Inl x)) e i a =
     Some (AwaitStartedWrite, a,
           [Print (StatusUpdateFailed x), Print (ExecutingTask i (count_active (tracker a))),
            UpdateExecutionLogs i started_marker])
   \<and> process_execution AwaitStartedWrite (ExecutionReply (Inr ())) e i a =
       Some (AwaitRunner, a, [ExecuteCode (executable e) i])
   \<and> process_execution AwaitRunner (RunnerReply (Inr logs)) e i a =
       Some (AwaitResultWrite, a, [UpdateExecutionResult i logs])
   \<and> (\<exists>p a' acts.
         process_execution AwaitResultWrite (ExecutionReply (Inr ())) e i a = Some (p, a', acts)
         \<and> tracker a' = fst (remove_active (tracker a) i)
         \<and> (p = AwaitStatusIdle \<or> p = Finished))
   \<and> process_execution AwaitStatusIdle (ComputerReply (Inl x)) e i a =
       Some (Finished, a,
             [Print (StatusUpdateFailed x), Print (TaskCompleted i (count_active (tracker a)))])
   \<and> map task_pc (tasks (run_steps
         [Deliver \<lparr>exec_id = i, completed = Some False, executable = code\<rparr>,
          Resume 0 Go,
          Resume 0 (ComputerReply r1),
          Resume 0 (ExecutionReply (Inr ())),
          Resume 0 (RunnerReply (Inr logs)),
          Resume 0 (ExecutionReply (Inr ())),
          Resume 0 (ComputerReply r2)]
         (initial c))) = [Finished]
   \<and> active_executions (tracker (agent_of (run_steps
         [Deliver \<lparr>exec_id = i, completed = Some False, executable = code\<rparr>,
          Resume 0 Go,
          Resume 0 (ComputerReply r1),
          Resume 0 (ExecutionReply (Inr ())),
          Resume 0 (RunnerReply (Inr logs)),
          Resume 0 (ExecutionReply (Inr ())),
          Resume 0 (ComputerReply r2)]
         (initial c)))) = {||}
   \<and> calls (trace (run_steps
         [Deliver \<lparr>exec_id = i, completed = Some False, executable = code\<rparr>,
          Resume 0 Go,
          Resume 0 (ComputerReply r1),
          Resume 0 (ExecutionReply (Inr ())),
          Resume 0 (RunnerReply (Inr logs)),
          Resume 0 (ExecutionReply (Inr ())),
          Resume 0 (ComputerReply r2)]
         (initial c))) =
       [UpdateComputer (comp_id c) 1,
        UpdateExecutionLogs i started_marker,
        ExecuteCode code i,
        UpdateExecutionResult i logs,
        UpdateComputer (comp_id (case r1 of Inl _ \<Rightarrow> c | Inr c' \<Rightarrow> c')) 2]"
proof (intro conjI)
  show "process_execution AwaitStatusRunning (ComputerReply (Inl x)) e i a =
     Some (AwaitStartedWrite, a,
           [Print (StatusUpdateFailed x), Print (ExecutingTask i (count_active (tracker a))),
            UpdateExecutionLogs i started_marker])"
    by (simp add: update_computer_status_reply_def started_write_def)
  show "process_execution AwaitStartedWrite (ExecutionReply (Inr ())) e i a =
       Some (AwaitRunner, a, [ExecuteCode (executable e) i])"
    by simp
  show "process_execution AwaitRunner (RunnerReply (Inr logs)) e i a =
       Some (AwaitResultWrite, a, [UpdateExecutionResult i logs])"
    by simp
  show "\<exists>p a' acts.
         process_execution AwaitResultWrite (ExecutionReply (Inr ())) e i a = Some (p, a', acts)
         \<and> tracker a' = fst (remove_active (tracker a) i)
         \<and> (p = AwaitStatusIdle \<or> p = Finished)"
    by (simp add: remove_active_def update_computer_status_call_def Let_def
        split: option.splits)
  show "process_execution AwaitStatusIdle (ComputerReply (Inl x)) e i a =
       Some (Finished, a,
             [Print (StatusUpdateFailed x), Print (TaskCompleted i (count_active (tracker a)))])"
    by (simp add: update_computer_status_reply_def task_completed_def)
qed (cases r1; cases r2; simp add: eval_simps)+

text \<open>
  C4. From the start of the process, whatever events are delivered and however the tasks
  are interleaved, at most one task is ever created for an identifier. The handler leaves
  the identifier marked when it returns, so after an event for an identifier has been
  handled, a later event for the same identifier changes nothing, whatever ran in between
  (nothing, a part of the first dispatch, or all of it).
\<close>

theorem at_most_one_dispatch:
  "dispatches i (run_steps steps (initial c)) \<le> 1
   \<and> exec_id e |\<in>| executed_tasks (tracker (agent_of (deliver e s)))
   \<and> (exec_id e' = exec_id e \<longrightarrow>
        run_steps (Deliver e # between @ [Deliver e']) s = run_steps (Deliver e # between) s)"
proof (intro conjI impI)
  have "ledger_inv (run_steps steps (initial c))"
    by (rule run_steps_inv [OF initial_inv])
  then show "dispatches i (run_steps steps (initial c)) \<le> 1"
    unfolding dispatches_def ledger_inv_def by (blast intro: distinct_count)
next
  show "exec_id e |\<in>| executed_tasks (tracker (agent_of (deliver e s)))"
    by (rule deliver_marks)
next
  assume same: "exec_id e' = exec_id e"
  have "exec_id e |\<in>| executed_tasks (tracker (agent_of (run_steps between (deliver e s))))"
    using run_steps_executed [of "deliver e s" between] deliver_marks [of e s] by blast
  then have "deliver e' (run_steps between (deliver e s)) = run_steps between (deliver e s)"
    using same by (simp add: deliver_marked_noop)
  then show "run_steps (Deliver e # between @ [Deliver e']) s = run_steps (Deliver e # between) s"
    by (simp add: run_steps_append)
qed

text \<open>
  C4 at a concrete input: the same execution is delivered, started, and delivered again;
  one task exists.
\<close>

theorem at_most_one_dispatch_witness:
  "exec_id example_execution = exec_id example_execution
   \<and> run_steps (Deliver example_execution # [Resume 0 Go] @ [Deliver example_execution])
        (initial example_computer)
       = run_steps (Deliver example_execution # [Resume 0 Go]) (initial example_computer)
   \<and> dispatches (Some ''e1'')
        (run_steps [Deliver example_execution, Resume 0 Go, Deliver example_execution]
           (initial example_computer)) = 1"
  using at_most_one_dispatch [of "Some ''e1''"
      "[Deliver example_execution, Resume 0 Go, Deliver example_execution]" example_computer
      example_execution "initial example_computer" example_execution "[Resume 0 Go]"]
  by (simp add: dispatches_def example_execution_def example_computer_def eval_simps)

text \<open>
  C5. An event whose completed flag is true never creates a task, whatever the tracker
  held before: the handler returns no task, the identifier is marked when it returns, the
  active set is unchanged, and in the loop neither the task list nor the trace changes.
\<close>

theorem completed_event_not_dispatched:
  assumes "truthy (completed e)"
  shows "snd (handle_execution e t) = None
         \<and> exec_id e |\<in>| executed_tasks (fst (handle_execution e t))
         \<and> active_executions (fst (handle_execution e t)) = active_executions t
         \<and> tasks (deliver e s) = tasks s
         \<and> trace (deliver e s) = trace s"
  using assms
  by (auto simp: handle_execution_def is_executed_def mark_executed_def deliver_def Let_def)

theorem completed_event_not_dispatched_witness:
  "truthy (completed completed_execution)
   \<and> handle_execution completed_execution new_tracker
       = (\<lparr>executed_tasks = {|Some ''e1''|}, active_executions = {||}\<rparr>, None)
   \<and> tasks (deliver completed_execution (initial example_computer)) = []"
  using completed_event_not_dispatched
    [of completed_execution new_tracker "initial example_computer"]
  by (simp add: completed_execution_def truthy_def handle_execution_def is_executed_def
      mark_executed_def new_tracker_def initial_def)

text \<open>
  C6. When the file is written, the child is spawned and exits, and both streams decode,
  the text returned is the captured stdout; then, if stderr is not empty, the section
  \<open>Errors:\<close> with the stderr text, set off from a non-empty stdout by a blank line; then,
  if the return code is not zero, a note giving that code. With an empty stderr and a
  return code of zero the text is exactly the stdout. With a non-empty stderr and a return
  code of one the text is the stdout, the \<open>Errors:\<close> section with the stderr text, and
  the note \<open>Process exited with code 1\<close>.
\<close>

theorem result_composition:
  assumes "open_result h = Inr ()" and "write_result h = Inr ()" and "popen_result h = Inr ()"
    and "completion h = Exited (Inr out) (Inr err) rc"
  shows "fst (run_in_process h (Some code) i timeout files) =
           out
           @ (if err = [] then []
              else (if out = [] then [] else newline @ newline) @ ''Errors:'' @ newline @ err)
           @ (if rc = 0 then []
              else newline @ newline @ ''Process exited with code '' @ str_int rc)
         \<and> (err = [] \<and> rc = 0 \<longrightarrow> fst (run_in_process h (Some code) i timeout files) = out)
         \<and> (err \<noteq> [] \<and> rc = 1 \<longrightarrow>
              fst (run_in_process h (Some code) i timeout files) =
                out @ (if out = [] then [] else newline @ newline) @ ''Errors:'' @ newline @ err
                @ newline @ newline @ ''Process exited with code 1'')"
  unfolding run_in_process_completed [OF assms]
  by (simp add: compose_output_def Let_def str_int_def str_nat.simps digit_def)

theorem result_composition_witness:
  "open_result example_host = Inr () \<and> write_result example_host = Inr ()
   \<and> popen_result example_host = Inr ()
   \<and> completion example_host = Exited (Inr ''partial'') (Inr ''boom'') 1
   \<and> ''boom'' \<noteq> [] \<and> (1::int) = 1
   \<and> fst (run_in_process example_host (Some ''code'') (Some ''e1'') None {||}) =
       ''partial'' @ newline @ newline @ ''Errors:'' @ newline @ ''boom''
       @ newline @ newline @ ''Process exited with code 1''"
  using result_composition
    [of example_host "''partial''" "''boom''" 1 "''code''" "Some ''e1''" None "{||}"]
  by (simp add: example_host_def str_int_def str_nat.simps digit_def)

text \<open>
  C7. When the timeout expires before the child finishes, the child is killed and the
  text returned is the one message \<open>Execution timed out after k seconds.\<close> for the
  timeout \<open>k\<close>; the text does not depend on the output captured before the kill.
\<close>

theorem timeout_message:
  assumes "open_result h = Inr ()" and "write_result h = Inr ()" and "popen_result h = Inr ()"
    and "completion h = TimedOut partial_out partial_err"
  shows "fst (run_in_process h (Some code) i (Some k) files) =
           ''Execution timed out after '' @ str_int k @ '' seconds.''
         \<and> Kill \<in> set (snd (snd (run_in_process h (Some code) i (Some k) files)))
         \<and> fst (run_in_process (h\<lparr>completion := TimedOut other_out other_err\<rparr>)
                  (Some code) i (Some k) files)
             = fst (run_in_process h (Some code) i (Some k) files)"
  using assms
  by (simp add: run_in_process_def try_body_def handlers_def str_timeout_def Let_def
      split: prod.splits)

theorem timeout_message_witness:
  "open_result timed_out_host = Inr () \<and> write_result timed_out_host = Inr ()
   \<and> popen_result timed_out_host = Inr ()
   \<and> completion timed_out_host = TimedOut ''partial'' ''boom''
   \<and> fst (run_in_process timed_out_host (Some ''code'') (Some ''e1'') (Some 1) {||}) =
       ''Execution timed out after 1 seconds.''
   \<and> Kill \<in> set (snd (snd (run_in_process timed_out_host (Some ''code'') (Some ''e1'')
                               (Some 1) {||})))"
  using timeout_message
    [of timed_out_host "''partial''" "''boom''" "''code''" "Some ''e1''" 1 "{||}" "[]" "[]"]
  by (simp add: timed_out_host_def example_host_def str_int_def str_nat.simps digit_def)

text \<open>
  C8. On every path through the runner (completion, timeout, exception) the deletion of
  the temporary file is attempted exactly when the file exists at the end of the
  \<^verbatim>\<open>try\<close> block. When the deletion does not fail, the file is not on disk afterwards.
  When it fails, the failure is logged, and the text returned is the one returned when the
  deletion succeeds: the failure does not reach the caller.
\<close>

theorem artifact_cleanup:
  "(Unlink (temp_filename (temp_dir h) i)
      \<in> set (snd (snd (run_in_process h code i timeout files)))
      = (temp_filename (temp_dir h) i
           |\<in>| fst (try_body h code (temp_filename (temp_dir h) i) files)))
   \<and> (unlink_result h = Inr () \<longrightarrow>
        temp_filename (temp_dir h) i |\<notin>| fst (snd (run_in_process h code i timeout files)))
   \<and> (unlink_result h = Inl e
        \<and> temp_filename (temp_dir h) i
             |\<in>| fst (try_body h code (temp_filename (temp_dir h) i) files) \<longrightarrow>
        LogDeleteError e \<in> set (snd (snd (run_in_process h code i timeout files))))
   \<and> fst (run_in_process h code i timeout files) =
       fst (run_in_process (h\<lparr>unlink_result := Inr ()\<rparr>) code i timeout files)"
proof -
  let ?path = "temp_filename (temp_dir h) i"
  obtain files1 acts1 r where tb: "try_body h code ?path files = (files1, acts1, r)"
    by (cases "try_body h code ?path files") auto
  have tb': "try_body (h\<lparr>unlink_result := Inr ()\<rparr>) code ?path files = (files1, acts1, r)"
    using tb by (simp add: try_body_ignores_unlink)
  note parts = run_in_process_parts [OF tb, of timeout]
  have parts': "fst (run_in_process (h\<lparr>unlink_result := Inr ()\<rparr>) code i timeout files)
                  = fst (handlers timeout r)"
    using run_in_process_parts
      [of "h\<lparr>unlink_result := Inr ()\<rparr>" code i files files1 acts1 r timeout] tb'
    by simp
  show ?thesis
    using try_body_no_unlink [OF tb, of ?path] handlers_no_unlink [of ?path timeout r]
      cleanup_unlink [of ?path h files1] cleanup_removes [of h ?path files1]
      cleanup_logs [of h e ?path files1]
    by (simp add: parts parts' tb)
qed

text \<open>
  C8 at concrete inputs: a run whose deletion succeeds leaves no file, and a run whose
  deletion fails logs the failure and returns the same text.
\<close>

theorem artifact_cleanup_witness:
  "unlink_result example_host = Inr ()
   \<and> temp_filename (temp_dir example_host) (Some ''e1'') = ''/tmp/exec_e1.py''
   \<and> fst (snd (run_in_process example_host (Some ''code'') (Some ''e1'') None {||})) = {||}
   \<and> unlink_result undeletable_host = Inl ''busy''
   \<and> ''/tmp/exec_e1.py''
        |\<in>| fst (try_body undeletable_host (Some ''code'') ''/tmp/exec_e1.py'' {||})
   \<and> snd (snd (run_in_process undeletable_host (Some ''code'') (Some ''e1'') None {||})) =
       [Announce ''/tmp/exec_e1.py'', Spawn ''/tmp/exec_e1.py'', Unlink ''/tmp/exec_e1.py'',
        LogDeleteError ''busy'']
   \<and> fst (run_in_process undeletable_host (Some ''code'') (Some ''e1'') None {||}) =
       fst (run_in_process example_host (Some ''code'') (Some ''e1'') None {||})"
  using artifact_cleanup [of example_host "Some ''e1''" "Some ''code''" None "{||}" "''busy''"]
    artifact_cleanup [of undeletable_host "Some ''e1''" "Some ''code''" None "{||}" "''busy''"]
  by (simp add: example_host_def undeletable_host_def run_in_process_def try_body_def
      handlers_def cleanup_def temp_filename_def path_join_def str_ident_def Let_def)

text \<open>
  C9. In every state reached from the start of the process by delivering events and
  resuming tasks in any order, every active identifier is marked as executed. The executed
  set never loses an identifier: not over any sequence of steps from any state, and not in
  any single operation of the tracker or in the handler.
\<close>

theorem active_subset_executed:
  "active_executions (tracker (agent_of (run_steps steps (initial c))))
     |\<subseteq>| executed_tasks (tracker (agent_of (run_steps steps (initial c))))
   \<and> executed_tasks (tracker (agent_of s))
       |\<subseteq>| executed_tasks (tracker (agent_of (run_steps steps s)))
   \<and> executed_tasks t |\<subseteq>| executed_tasks (mark_executed t i)
   \<and> executed_tasks (fst (add_active t i)) = executed_tasks t
   \<and> executed_tasks (fst (remove_active t i)) = executed_tasks t
   \<and> executed_tasks t |\<subseteq>| executed_tasks (fst (handle_execution e t))"
proof (intro conjI)
  have "ledger_inv (run_steps steps (initial c))"
    by (rule run_steps_inv [OF initial_inv])
  then show "active_executions (tracker (agent_of (run_steps steps (initial c))))
     |\<subseteq>| executed_tasks (tracker (agent_of (run_steps steps (initial c))))"
    by (simp add: ledger_inv_def)
  show "executed_tasks (tracker (agent_of s))
          |\<subseteq>| executed_tasks (tracker (agent_of (run_steps steps s)))"
    by (rule run_steps_executed)
  show "executed_tasks t |\<subseteq>| executed_tasks (mark_executed t i)"
    by (auto simp: mark_executed_def)
  show "executed_tasks (fst (add_active t i)) = executed_tasks t"
    by (simp add: add_active_def Let_def)
  show "executed_tasks (fst (remove_active t i)) = executed_tasks t"
    by (simp add: remove_active_def Let_def)
  show "executed_tasks t |\<subseteq>| executed_tasks (fst (handle_execution e t))"
    using handle_execution_tracker [of e t] by auto
qed




end
